theory Spec2Isabelle
  imports Main "HOL-Library.Multiset"
begin

section \<open>Interview session orchestration: the data model\<close>

text \<open>
  The development embeds the interview hook \<^verbatim>\<open>useInterview\<close>, the interview API client it
  calls, the interview page that drives the hook, and the session list of the interviews
  page. A React state cell is a field of a record; an operation of the hook takes the
  state its closure captured and returns the state after all its \<^verbatim>\<open>set...\<close> calls, the
  value it returns, and the list of things it did to the outside world in order: calls to
  the backend and calls to the \<^verbatim>\<open>onMessage\<close>/\<open>onError\<close> callbacks. A backend
  call answers with \<open>Inr\<close> of its value or with \<open>Inl\<close> of the message of the
  \<^verbatim>\<open>Error\<close> it throws. Operations run one at a time, each to its end: an update
  \<^verbatim>\<open>setCurrentSession(prev => ...)\<close> is applied to the session the operation started
  from. The identifier and the timestamp of a chat message
  (\<^verbatim>\<open>Date.now()\<close>, \<^verbatim>\<open>Math.random()\<close>) are left out; a date the hook holds is the
  number of milliseconds \<^verbatim>\<open>getTime()\<close> gives. The fixed texts of the source are constructors of
  \<open>content\<close> and \<open>error_text\<close>, a template with its interpolated values as arguments.
\<close>

record question =
  question_text :: string

record answer_record =
  answer :: string
  evaluation :: string
  question_index :: nat

text \<open>The \<^verbatim>\<open>InterviewSession\<close> of the API client: what the Session Store returns. The lists
  are optional because the source guards every read with \<^verbatim>\<open>|| []\<close>.\<close>

record api_session =
  session_id :: nat
  resume_id :: nat
  api_questions :: "question list option"
  api_answers :: "answer_record list option"
  api_status :: string
  created_at :: int

datatype session_status = Active | Completed | Paused

text \<open>The \<^verbatim>\<open>InterviewSession\<close> of the hook: the local mirror.\<close>

record interview_session =
  sessionId :: nat
  resumeId :: nat
  status :: session_status
  startTime :: int
  questions :: "question list"
  answers :: "answer_record list"
  currentQuestionIndex :: nat

record next_question =
  nq_question :: string
  nq_question_index :: nat

record answer_evaluation =
  ev_evaluation :: string
  ev_feedback :: string

record interview_config =
  job_position :: "string option"
  interview_mode :: string
  jd_content :: string
  question_count :: nat

datatype role = User | Ai

datatype mode_label = Comprehensive | Technical | Behavioral

datatype content =
    Verbatim string
  | ContinueWithQuestion nat nat string
  | ContinueAllAnswered nat nat
  | ContinueDefault
  | WelcomeWithQuestion mode_label string
  | WelcomeFallback
  | AllPresetComplete
  | DefaultNextPrompt
  | EndSummary nat int

datatype thrown = ApiFailure string | SessionDoesNotExist

datatype error_text =
    ErrVerbatim string
  | AlreadyCompleted
  | SessionMissingOrDeleted
  | NoPermission
  | LoadNetworkFailed
  | LoadFailed thrown
  | SendNetworkFailed
  | SendCannotConnect
  | EndFailed

datatype api_call =
    GetInterviewSessions nat
  | StartInterview nat interview_config
  | GetNextInterviewQuestion nat nat
  | SubmitInterviewAnswer nat nat string nat
  | EndInterview nat nat

datatype toast = ToastStarted | ToastContinued | ToastEndedPrevious | ToastEndPreviousFailed
  | ToastEnded

datatype effect =
    Call api_call
  | OnMessage role content
  | OnError error_text
  | Confirm nat nat
  | Toast toast

record hook_options =
  interviewMode :: string
  jobPosition :: "string option"
  existingSessionId :: "nat option"

record hook_state =
  isInterviewActive :: bool
  currentSession :: "interview_session option"
  isLoading :: bool
  currentStreamingMessage :: string
  hasAutoLoaded :: bool

text \<open>What the backend answers to each call an operation may make, and the clock.\<close>

record backend =
  sessions_response :: "string + api_session list"
  start_response :: "string + api_session"
  question_response :: "string + next_question"
  answer_response :: "string + answer_evaluation"
  end_response :: "string option"
  clock :: int

section \<open>Helpers of the language\<close>

text \<open>\<^verbatim>\<open>xs || []\<close>\<close>

definition or_empty :: "'a list option \<Rightarrow> 'a list" where
  "or_empty xs = (case xs of None \<Rightarrow> [] | Some ys \<Rightarrow> ys)"

text \<open>\<^verbatim>\<open>String.prototype.includes\<close>\<close>

fun str_includes :: "string \<Rightarrow> string \<Rightarrow> bool" where
  "str_includes [] p = (p = [])"
| "str_includes (c # cs) p = (take (length p) (c # cs) = p \<or> str_includes cs p)"

text \<open>A session identifier used as a condition: \<^verbatim>\<open>null\<close> and \<^verbatim>\<open>0\<close> are falsy.\<close>

definition truthy :: "nat option \<Rightarrow> bool" where
  "truthy n = (case n of None \<Rightarrow> False | Some k \<Rightarrow> k \<noteq> 0)"

section \<open>The hook\<close>

text \<open>
  \<^verbatim>\<open>loadExistingSession\<close>: the error handed to the callback for what the \<^verbatim>\<open>try\<close> block
  threw, the local session built from the stored one, and the message that welcomes the
  user back.
\<close>

definition load_error_text :: "thrown \<Rightarrow> error_text" where
  "load_error_text e =
     (case e of
        SessionDoesNotExist \<Rightarrow> LoadFailed SessionDoesNotExist
      | ApiFailure m \<Rightarrow>
          if str_includes m ''404'' then SessionMissingOrDeleted
          else if str_includes m ''403'' then NoPermission
          else if str_includes m ''Failed to fetch'' then LoadNetworkFailed
          else LoadFailed (ApiFailure m))"

definition adopted :: "nat \<Rightarrow> nat \<Rightarrow> api_session \<Rightarrow> interview_session" where
  "adopted rid sid existing =
     \<lparr> sessionId = sid, resumeId = rid, status = Active,
       startTime = created_at existing,
       questions = or_empty (api_questions existing),
       answers = or_empty (api_answers existing),
       currentQuestionIndex = length (or_empty (api_answers existing)) \<rparr>"

definition continue_message :: "api_session \<Rightarrow> content" where
  "continue_message existing =
     (let answeredCount = length (or_empty (api_answers existing));
          totalQuestions = length (or_empty (api_questions existing));
          currentQuestionIndex = answeredCount
      in if currentQuestionIndex < totalQuestions then
           ContinueWithQuestion answeredCount totalQuestions
             (question_text (or_empty (api_questions existing) ! currentQuestionIndex))
         else if answeredCount = totalQuestions \<and> totalQuestions > 0 then
           ContinueAllAnswered answeredCount totalQuestions
         else ContinueDefault)"

definition loadExistingSession ::
  "nat \<Rightarrow> hook_state \<Rightarrow> nat \<Rightarrow> backend
     \<Rightarrow> hook_state \<times> interview_session option \<times> effect list" where
  "loadExistingSession rid st sid b =
     (case sessions_response b of
        Inl m \<Rightarrow>
          (st\<lparr>isLoading := False\<rparr>, None,
           [Call (GetInterviewSessions rid), OnError (load_error_text (ApiFailure m))])
      | Inr sessions \<Rightarrow>
          (case find (\<lambda>s. session_id s = sid) sessions of
             None \<Rightarrow>
               (st\<lparr>isLoading := False\<rparr>, None,
                [Call (GetInterviewSessions rid),
                 OnError (load_error_text SessionDoesNotExist)])
           | Some existing \<Rightarrow>
               if api_status existing = ''completed'' then
                 (st\<lparr>isLoading := False\<rparr>, None,
                  [Call (GetInterviewSessions rid), OnError AlreadyCompleted])
               else
                 (st\<lparr>currentSession := Some (adopted rid sid existing),
                     isInterviewActive := True, isLoading := False\<rparr>,
                  Some (adopted rid sid existing),
                  [Call (GetInterviewSessions rid),
                   OnMessage Ai (continue_message existing)])))"

text \<open>The effect that loads the session named in the options when the hook mounts.\<close>

definition autoLoadEffect ::
  "nat \<Rightarrow> hook_options \<Rightarrow> hook_state \<Rightarrow> backend \<Rightarrow> hook_state \<times> effect list" where
  "autoLoadEffect rid opts st b =
     (if truthy (existingSessionId opts) \<and> \<not> hasAutoLoaded st \<and> \<not> isInterviewActive st
         \<and> \<not> isLoading st \<and> rid \<noteq> 0
      then (case loadExistingSession rid (st\<lparr>hasAutoLoaded := True\<rparr>)
                   (the (existingSessionId opts)) b of
              (st', _, effs) \<Rightarrow> (st', effs))
      else (st, []))"

text \<open>
  \<^verbatim>\<open>startInterview\<close>: the three early returns, then the creation of a session and the
  request for its first question, whose failure only changes the welcome message.
\<close>

definition mode_label_of :: "string \<Rightarrow> mode_label" where
  "mode_label_of m =
     (if m = ''comprehensive'' then Comprehensive
      else if m = ''technical'' then Technical else Behavioral)"

definition start_config :: "hook_options \<Rightarrow> string option \<Rightarrow> nat option \<Rightarrow> interview_config" where
  "start_config opts jd qc =
     \<lparr> job_position = (case jobPosition opts of None \<Rightarrow> None
                          | Some p \<Rightarrow> if p = [] then None else Some p),
       interview_mode = interviewMode opts,
       jd_content = (case jd of None \<Rightarrow> [] | Some t \<Rightarrow> t),
       question_count = (case qc of None \<Rightarrow> 10 | Some n \<Rightarrow> if n = 0 then 10 else n) \<rparr>"

definition created :: "nat \<Rightarrow> int \<Rightarrow> api_session \<Rightarrow> interview_session" where
  "created rid now backendSession =
     \<lparr> sessionId = session_id backendSession, resumeId = rid, status = Active,
       startTime = now,
       questions = or_empty (api_questions backendSession),
       answers = or_empty (api_answers backendSession),
       currentQuestionIndex = 0 \<rparr>"

definition startInterview ::
  "nat \<Rightarrow> hook_options \<Rightarrow> hook_state \<Rightarrow> string option \<Rightarrow> nat option \<Rightarrow> backend
     \<Rightarrow> hook_state \<times> interview_session option \<times> effect list" where
  "startInterview rid opts st jd qc b =
     (if isInterviewActive st then (st, currentSession st, [])
      else if truthy (existingSessionId opts) \<and> \<not> hasAutoLoaded st then (st, None, [])
      else if truthy (existingSessionId opts) \<and> hasAutoLoaded st then
        loadExistingSession rid st (the (existingSessionId opts)) b
      else
        (case start_response b of
           Inl m \<Rightarrow>
             (st\<lparr>isLoading := False\<rparr>, None,
              [Call (StartInterview rid (start_config opts jd qc)), OnError (ErrVerbatim m)])
         | Inr backendSession \<Rightarrow>
             (let session = created rid (clock b) backendSession;
                  calls = [Call (StartInterview rid (start_config opts jd qc)),
                           Call (GetNextInterviewQuestion rid (session_id backendSession))]
              in case question_response b of
                   Inr firstQuestion \<Rightarrow>
                     (st\<lparr>currentSession :=
                           Some (session\<lparr>currentQuestionIndex :=
                                   nq_question_index firstQuestion\<rparr>),
                         isInterviewActive := True, isLoading := False\<rparr>,
                      Some session,
                      calls @ [OnMessage Ai
                         (WelcomeWithQuestion (mode_label_of (interviewMode opts))
                            (nq_question firstQuestion))])
                 | Inl _ \<Rightarrow>
                     (st\<lparr>currentSession := Some session,
                         isInterviewActive := True, isLoading := False\<rparr>,
                      Some session,
                      calls @ [OnMessage Ai WelcomeFallback]))))"

text \<open>
  \<^verbatim>\<open>sendAnswer\<close>. The second test of \<open>send_error_text\<close> is the one of the source,
  which the first shadows.
\<close>

definition send_error_text :: "string \<Rightarrow> error_text" where
  "send_error_text m =
     (if str_includes m ''Load failed'' \<or> str_includes m ''fetch'' then SendNetworkFailed
      else if str_includes m ''Failed to fetch'' then SendCannotConnect
      else ErrVerbatim m)"

definition feedback_content :: "answer_evaluation \<Rightarrow> content" where
  "feedback_content ev = (if ev_feedback ev = [] then DefaultNextPrompt
                          else Verbatim (ev_feedback ev))"

definition sendAnswer ::
  "nat \<Rightarrow> hook_state \<Rightarrow> string \<Rightarrow> backend \<Rightarrow> hook_state \<times> effect list" where
  "sendAnswer rid st ans b =
     (case currentSession st of
        None \<Rightarrow> (st, [])
      | Some cur \<Rightarrow>
          if \<not> isInterviewActive st then (st, [])
          else if currentQuestionIndex cur \<ge> length (questions cur) then
            (st\<lparr>isLoading := False, currentStreamingMessage := []\<rparr>,
             [OnMessage User (Verbatim ans), OnMessage Ai AllPresetComplete])
          else
            (case answer_response b of
               Inl m \<Rightarrow>
                 (st\<lparr>isLoading := False, currentStreamingMessage := []\<rparr>,
                  [OnMessage User (Verbatim ans),
                   Call (SubmitInterviewAnswer rid (sessionId cur) ans
                           (currentQuestionIndex cur)),
                   OnError (send_error_text m)])
             | Inr ev \<Rightarrow>
                 (st\<lparr>currentSession :=
                       Some (cur\<lparr>currentQuestionIndex := currentQuestionIndex cur + 1,
                                 answers := answers cur @
                                   [\<lparr>answer = ans, evaluation = ev_evaluation ev,
                                     question_index = currentQuestionIndex cur\<rparr>]\<rparr>),
                     isLoading := False, currentStreamingMessage := []\<rparr>,
                  [OnMessage User (Verbatim ans),
                   Call (SubmitInterviewAnswer rid (sessionId cur) ans
                           (currentQuestionIndex cur)),
                   OnMessage Ai (feedback_content ev)])))"

text \<open>\<^verbatim>\<open>endInterview\<close>; the summary carries the whole minutes since the start.\<close>

definition endInterview ::
  "nat \<Rightarrow> hook_state \<Rightarrow> backend \<Rightarrow> hook_state \<times> effect list" where
  "endInterview rid st b =
     (case currentSession st of
        None \<Rightarrow> (st, [])
      | Some cur \<Rightarrow>
          (case end_response b of
             Some _ \<Rightarrow> (st, [Call (EndInterview rid (sessionId cur)), OnError EndFailed])
           | None \<Rightarrow>
               (st\<lparr>isInterviewActive := False, currentSession := None\<rparr>,
                [Call (EndInterview rid (sessionId cur)),
                 OnMessage Ai (EndSummary (length (answers cur))
                                 ((clock b - startTime cur) div 60000))])))"

section \<open>The interview page\<close>

text \<open>
  The page holds the hook, the transcript (\<open>messages\<close>), the text being typed and a few
  guards. \<open>deliver\<close> runs the two callbacks the page hands to the hook over what an
  operation emitted: \<^verbatim>\<open>handleMessage\<close> appends to the transcript, \<^verbatim>\<open>handleError\<close>
  stores the error (the toast it also shows is left out). The page reads the session list
  and ends a session with \<^verbatim>\<open>fetch\<close> of its own: the list request throws, answers with
  a status that is not ok, or answers with the sessions; the end request throws or
  returns, and its status is not looked at. A call is recorded when it is issued.
\<close>

record page_state =
  hook :: hook_state
  resumeLoaded :: bool
  pageResumeId :: nat
  configMode :: string
  configPosition :: string
  configJd :: string
  configSessionId :: "nat option"
  questionCountParam :: "nat option"
  messages :: "(role \<times> content) list"
  inputMessage :: string
  interviewTime :: nat
  currentQuestion :: nat
  hasStartedInterview :: bool
  interviewError :: "error_text option"
  processedSessionRef :: "nat option"
  hasCheckedExistingSession :: bool

datatype sessions_fetch = FetchThrows | NotOk | Ok "api_session list"

record page_env =
  token_present :: bool
  sessions_fetched :: sessions_fetch
  end_fetch_throws :: bool
  confirm_answer :: bool
  hook_backend :: backend

fun deliver :: "effect list \<Rightarrow> page_state \<Rightarrow> page_state" where
  "deliver [] ps = ps"
| "deliver (OnMessage r c # es) ps = deliver es (ps\<lparr>messages := messages ps @ [(r, c)]\<rparr>)"
| "deliver (OnError e # es) ps = deliver es (ps\<lparr>interviewError := Some e\<rparr>)"
| "deliver (Call _ # es) ps = deliver es ps"
| "deliver (Confirm _ _ # es) ps = deliver es ps"
| "deliver (Toast _ # es) ps = deliver es ps"

definition interviewOptions :: "page_state \<Rightarrow> hook_options" where
  "interviewOptions ps =
     \<lparr> interviewMode = configMode ps, jobPosition = Some (configPosition ps),
       existingSessionId = configSessionId ps \<rparr>"

text \<open>
  \<^verbatim>\<open>String.prototype.trim\<close>. A string of the model is the UTF-8 encoding of the text, so
  \<open>white_space\<close> lists the white space and the line terminators of the language by
  their bytes: U+0009 to U+000D and U+0020, then U+00A0, U+1680, U+2000 to U+200A, U+2028,
  U+2029, U+202F, U+205F, U+3000 and U+FEFF. \<open>strip_leading\<close> removes them from the
  front for as long as there is one; \<open>trim\<close> does so at both ends.
\<close>

definition white_space :: "string list" where
  "white_space =
     [[CHR 0x09], [CHR 0x0A], [CHR 0x0B], [CHR 0x0C], [CHR 0x0D], [CHR 0x20],
      [CHR 0xC2, CHR 0xA0],
      [CHR 0xE1, CHR 0x9A, CHR 0x80],
      [CHR 0xE2, CHR 0x80, CHR 0x80], [CHR 0xE2, CHR 0x80, CHR 0x81],
      [CHR 0xE2, CHR 0x80, CHR 0x82], [CHR 0xE2, CHR 0x80, CHR 0x83],
      [CHR 0xE2, CHR 0x80, CHR 0x84], [CHR 0xE2, CHR 0x80, CHR 0x85],
      [CHR 0xE2, CHR 0x80, CHR 0x86], [CHR 0xE2, CHR 0x80, CHR 0x87],
      [CHR 0xE2, CHR 0x80, CHR 0x88], [CHR 0xE2, CHR 0x80, CHR 0x89],
      [CHR 0xE2, CHR 0x80, CHR 0x8A],
      [CHR 0xE2, CHR 0x80, CHR 0xA8], [CHR 0xE2, CHR 0x80, CHR 0xA9],
      [CHR 0xE2, CHR 0x80, CHR 0xAF],
      [CHR 0xE2, CHR 0x81, CHR 0x9F],
      [CHR 0xE3, CHR 0x80, CHR 0x80],
      [CHR 0xEF, CHR 0xBB, CHR 0xBF]]"

function strip_leading :: "string list \<Rightarrow> string \<Rightarrow> string" where
  "strip_leading ws s =
     (case find (\<lambda>w. w \<noteq> [] \<and> take (length w) s = w) ws of
        None \<Rightarrow> s
      | Some w \<Rightarrow> strip_leading ws (drop (length w) s))"
  by pat_completeness auto
termination
proof (relation "measure (\<lambda>(ws, s). length s)")
  show "wf (measure (\<lambda>(ws, s). length s))" by simp
next
  fix ws :: "string list" and s w :: string
  assume "find (\<lambda>w. w \<noteq> [] \<and> take (length w) s = w) ws = Some w"
  then have w: "w \<noteq> []" "take (length w) s = w"
    by (auto simp add: find_Some_iff)
  then have "s \<noteq> []" by auto
  with w(1) show "((ws, drop (length w) s), (ws, s)) \<in> measure (\<lambda>(ws, s). length s)"
    by simp
qed

declare strip_leading.simps [simp del]

definition trim :: "string \<Rightarrow> string" where
  "trim s = rev (strip_leading (map rev white_space) (rev (strip_leading white_space s)))"

definition handleStartInterview :: "page_state \<Rightarrow> backend \<Rightarrow> page_state \<times> effect list" where
  "handleStartInterview ps b =
     (if \<not> resumeLoaded ps then (ps, [])
      else if \<not> truthy (configSessionId ps) \<and> hasStartedInterview ps then (ps, [])
      else
        (let ps1 = (if \<not> truthy (configSessionId ps) then ps\<lparr>hasStartedInterview := True\<rparr>
                    else ps);
             ps2 = ps1\<lparr>messages := [], interviewTime := 0, currentQuestion := 1\<rparr>
         in case startInterview (pageResumeId ps) (interviewOptions ps) (hook ps)
                   (Some (configJd ps)) (questionCountParam ps) b of
              (h, session, effs) \<Rightarrow>
                (deliver effs (ps2\<lparr>hook := h\<rparr>),
                 effs @ (case session of
                           None \<Rightarrow> []
                         | Some _ \<Rightarrow> [Toast (if truthy (configSessionId ps)
                                               then ToastContinued else ToastStarted)]))))"

definition then_start ::
  "page_state \<Rightarrow> effect list \<Rightarrow> page_env \<Rightarrow> page_state \<times> effect list" where
  "then_start ps before e =
     (case handleStartInterview ps (hook_backend e) of (ps', effs) \<Rightarrow> (ps', before @ effs))"

definition checkAndStartInterview :: "page_state \<Rightarrow> page_env \<Rightarrow> page_state \<times> effect list" where
  "checkAndStartInterview ps e =
     (let rid = pageResumeId ps in
      if \<not> token_present e then (ps, [])
      else
        (case sessions_fetched e of
           FetchThrows \<Rightarrow> then_start ps [Call (GetInterviewSessions rid)] e
         | NotOk \<Rightarrow> then_start ps [Call (GetInterviewSessions rid)] e
         | Ok sessions \<Rightarrow>
             (case find (\<lambda>s. api_status s = ''active'') sessions of
                None \<Rightarrow> then_start ps [Call (GetInterviewSessions rid)] e
              | Some activeSession \<Rightarrow>
                  if processedSessionRef ps = Some (session_id activeSession) then
                    then_start ps [Call (GetInterviewSessions rid)] e
                  else
                    (let answeredCount = length (or_empty (api_answers activeSession));
                         totalQuestions = length (or_empty (api_questions activeSession))
                     in if answeredCount \<ge> totalQuestions \<and> totalQuestions > 0 then
                          then_start ps
                            [Call (GetInterviewSessions rid),
                             Call (EndInterview rid (session_id activeSession))] e
                        else if confirm_answer e then
                          (ps\<lparr>processedSessionRef := Some (session_id activeSession),
                              configSessionId := Some (session_id activeSession),
                              hasStartedInterview := True\<rparr>,
                           [Call (GetInterviewSessions rid),
                            Confirm answeredCount totalQuestions])
                        else if end_fetch_throws e then
                          (ps,
                           [Call (GetInterviewSessions rid),
                            Confirm answeredCount totalQuestions,
                            Call (EndInterview rid (session_id activeSession)),
                            Toast ToastEndPreviousFailed])
                        else
                          then_start ps
                            [Call (GetInterviewSessions rid),
                             Confirm answeredCount totalQuestions,
                             Call (EndInterview rid (session_id activeSession)),
                             Toast ToastEndedPrevious] e))))"

text \<open>The effect that starts an interview when the page has no session to continue.\<close>

definition autoStartEffect :: "page_state \<Rightarrow> page_env \<Rightarrow> page_state \<times> effect list" where
  "autoStartEffect ps e =
     (if resumeLoaded ps \<and> \<not> isInterviewActive (hook ps) \<and> \<not> isLoading (hook ps)
         \<and> \<not> hasStartedInterview ps \<and> \<not> truthy (configSessionId ps)
         \<and> \<not> hasCheckedExistingSession ps
      then checkAndStartInterview (ps\<lparr>hasCheckedExistingSession := True\<rparr>) e
      else (ps, []))"

definition handleEndInterview :: "page_state \<Rightarrow> backend \<Rightarrow> page_state \<times> effect list" where
  "handleEndInterview ps b =
     (case endInterview (pageResumeId ps) (hook ps) b of
        (h, effs) \<Rightarrow>
          ((deliver effs (ps\<lparr>hook := h\<rparr>))\<lparr>interviewTime := 0, hasStartedInterview := False\<rparr>,
           effs @ [Toast ToastEnded]))"

definition handleSendMessage :: "page_state \<Rightarrow> backend \<Rightarrow> page_state \<times> effect list" where
  "handleSendMessage ps b =
     (if trim (inputMessage ps) = [] \<or> isLoading (hook ps) then (ps, [])
      else
        (case sendAnswer (pageResumeId ps) (hook ps) (trim (inputMessage ps)) b of
           (h, effs) \<Rightarrow>
             ((deliver effs (ps\<lparr>inputMessage := [], hook := h\<rparr>))
                \<lparr>currentQuestion := currentQuestion ps + 1\<rparr>,
              effs)))"

section \<open>The session list of the interviews page\<close>

text \<open>
  \<^verbatim>\<open>fetchInterviewSessions\<close> gathers the sessions of every resume into \<^verbatim>\<open>allSessions\<close>,
  sorts them in place and maps each to itself with the flag \<^verbatim>\<open>isPossibleDuplicate\<close>: here
  a pair of the session and the flag. Of a session the page reads the identifier, the
  resume, the status and \<^verbatim>\<open>created_at\<close>, the string the API returns, which it parses
  anew at every comparison. The parser of dates is the platform's: the definitions take
  \<open>getTime\<close>, what \<^verbatim>\<open>new Date(s).getTime()\<close> gives for a string, in milliseconds, and
  \<open>None\<close> where it gives \<^verbatim>\<open>NaN\<close>.
\<close>

record listed_session =
  listed_id :: nat
  listed_resume_id :: nat
  listed_status :: string
  listed_created_at :: string

text \<open>
  The test for a later session, false when either date is \<^verbatim>\<open>NaN\<close>; the comparator of the
  sort, which subtracts the time of its first argument from that of its second, and
  whose \<^verbatim>\<open>NaN\<close> the sort reads as zero; the time of a session whose date parses.
\<close>

definition createdAfter ::
  "(string \<Rightarrow> int option) \<Rightarrow> listed_session \<Rightarrow> listed_session \<Rightarrow> bool" where
  "createdAfter getTime s session =
     (case getTime (listed_created_at s) of
        None \<Rightarrow> False
      | Some a \<Rightarrow>
          (case getTime (listed_created_at session) of
             None \<Rightarrow> False
           | Some b \<Rightarrow> a > b))"

definition compareCreatedAt ::
  "(string \<Rightarrow> int option) \<Rightarrow> listed_session \<Rightarrow> listed_session \<Rightarrow> int" where
  "compareCreatedAt getTime a b =
     (case getTime (listed_created_at b) of
        None \<Rightarrow> 0
      | Some tb \<Rightarrow>
          (case getTime (listed_created_at a) of
             None \<Rightarrow> 0
           | Some ta \<Rightarrow> tb - ta))"

definition createdMs :: "(string \<Rightarrow> int option) \<Rightarrow> listed_session \<Rightarrow> int" where
  "createdMs getTime s = (case getTime (listed_created_at s) of None \<Rightarrow> 0 | Some t \<Rightarrow> t)"

text \<open>
  \<^verbatim>\<open>Array.prototype.sort\<close> is stable, as \<open>sort_key\<close> is: where every date parses, the
  result is the list ordered by time, latest first, and where all sessions compare equal,
  the list as it was. In any other case the comparator is not consistent and the language
  leaves the order to the implementation: the model gives no list then.
\<close>

definition sortByCreatedAt ::
  "(string \<Rightarrow> int option) \<Rightarrow> listed_session list \<Rightarrow> listed_session list option" where
  "sortByCreatedAt getTime allSessions =
     (if list_all (\<lambda>s. getTime (listed_created_at s) \<noteq> None) allSessions then
        Some (sort_key (\<lambda>s. - createdMs getTime s) allSessions)
      else if list_all (\<lambda>a. list_all (\<lambda>b. compareCreatedAt getTime a b = 0) allSessions)
                allSessions then
        Some allSessions
      else None)"

definition isPossibleDuplicate ::
  "(string \<Rightarrow> int option) \<Rightarrow> listed_session list \<Rightarrow> listed_session \<Rightarrow> bool" where
  "isPossibleDuplicate getTime allSessions session =
     (let duplicateActiveSessions =
            filter (\<lambda>s. listed_resume_id s = listed_resume_id session
                         \<and> listed_status s = ''active''
                         \<and> listed_id s \<noteq> listed_id session) allSessions
      in if listed_status session = ''active'' \<and> length duplicateActiveSessions > 0 then
           (case find (\<lambda>s. createdAfter getTime s session) duplicateActiveSessions of
              Some _ \<Rightarrow> True
            | None \<Rightarrow> False)
         else False)"

definition processedSessions ::
  "(string \<Rightarrow> int option) \<Rightarrow> listed_session list
     \<Rightarrow> (listed_session \<times> bool) list option" where
  "processedSessions getTime allSessions =
     (case sortByCreatedAt getTime allSessions of
        None \<Rightarrow> None
      | Some sorted_sessions \<Rightarrow>
          Some (map (\<lambda>session. (session, isPossibleDuplicate getTime sorted_sessions session))
                  sorted_sessions))"

section \<open>The property of the local mirror\<close>

text \<open>
  What the specification asks of the local mirror, as a predicate on a session and on a
  state of the hook: the session held while the interview is active has as many answers as
  its index says. The predicates are not part of the program.
\<close>

definition mirror_consistent :: "interview_session \<Rightarrow> bool" where
  "mirror_consistent s = (length (answers s) = currentQuestionIndex s)"

definition hook_invariant :: "hook_state \<Rightarrow> bool" where
  "hook_invariant st =
     (\<not> isInterviewActive st \<or>
      (case currentSession st of None \<Rightarrow> True | Some s \<Rightarrow> mirror_consistent s))"

section \<open>Example sessions\<close>

text \<open>
  Concrete states and backends at which the theorems below are instantiated: a resume 7
  with a session 3 of one question, before and after its answer; a Session Store listing
  a completed, an open and a stale session; a Store that creates session 4; an Evaluator
  that answers, answers with no feedback, or is down.
\<close>

definition ex_q0 :: question where
  "ex_q0 =
     \<lparr> question_text = ''q0'' \<rparr>"

definition ex_q1 :: question where
  "ex_q1 =
     \<lparr> question_text = ''q1'' \<rparr>"

definition ex_a0 :: answer_record where
  "ex_a0 =
     \<lparr> answer = ''a0'', evaluation = ''ok'', question_index = 0 \<rparr>"

definition ex_a_hello :: answer_record where
  "ex_a_hello =
     \<lparr> answer = ''hello'', evaluation = ''fine'', question_index = 0 \<rparr>"

definition ex_evaluation :: answer_evaluation where
  "ex_evaluation =
     \<lparr> ev_evaluation = ''fine'', ev_feedback = ''next'' \<rparr>"

definition ex_evaluation_silent :: answer_evaluation where
  "ex_evaluation_silent =
     \<lparr> ev_evaluation = ''fine'', ev_feedback = [] \<rparr>"

definition ex_session_open :: interview_session where
  "ex_session_open =
     \<lparr> sessionId = 3, resumeId = 7, status = Active, startTime = 0,
       questions = [ex_q0], answers = [], currentQuestionIndex = 0 \<rparr>"

definition ex_session_open_answered :: interview_session where
  "ex_session_open_answered =
     \<lparr> sessionId = 3, resumeId = 7, status = Active, startTime = 0,
       questions = [ex_q0], answers = [ex_a_hello], currentQuestionIndex = 1 \<rparr>"

definition ex_session_exhausted :: interview_session where
  "ex_session_exhausted =
     \<lparr> sessionId = 3, resumeId = 7, status = Active, startTime = 0,
       questions = [ex_q0], answers = [ex_a0], currentQuestionIndex = 1 \<rparr>"

definition ex_idle :: hook_state where
  "ex_idle =
     \<lparr> isInterviewActive = False, currentSession = None, isLoading = False,
       currentStreamingMessage = [], hasAutoLoaded = False \<rparr>"

definition ex_idle_autoloaded :: hook_state where
  "ex_idle_autoloaded =
     \<lparr> isInterviewActive = False, currentSession = None, isLoading = False,
       currentStreamingMessage = [], hasAutoLoaded = True \<rparr>"

definition ex_active_open :: hook_state where
  "ex_active_open =
     \<lparr> isInterviewActive = True, currentSession = Some ex_session_open, isLoading = False,
       currentStreamingMessage = [], hasAutoLoaded = False \<rparr>"

definition ex_active_open_answered :: hook_state where
  "ex_active_open_answered =
     \<lparr> isInterviewActive = True, currentSession = Some ex_session_open_answered,
       isLoading = False, currentStreamingMessage = [], hasAutoLoaded = False \<rparr>"

definition ex_active_exhausted :: hook_state where
  "ex_active_exhausted =
     \<lparr> isInterviewActive = True, currentSession = Some ex_session_exhausted, isLoading = False,
       currentStreamingMessage = [], hasAutoLoaded = False \<rparr>"

definition ex_active_busy :: hook_state where
  "ex_active_busy =
     \<lparr> isInterviewActive = True, currentSession = Some ex_session_open, isLoading = True,
       currentStreamingMessage = [], hasAutoLoaded = False \<rparr>"

definition ex_idle_busy :: hook_state where
  "ex_idle_busy =
     \<lparr> isInterviewActive = False, currentSession = None, isLoading = True,
       currentStreamingMessage = [], hasAutoLoaded = False \<rparr>"

definition ex_options :: hook_options where
  "ex_options =
     \<lparr> interviewMode = ''technical'', jobPosition = None, existingSessionId = None \<rparr>"

definition ex_options_resume :: hook_options where
  "ex_options_resume =
     \<lparr> interviewMode = ''technical'', jobPosition = None, existingSessionId = Some 3 \<rparr>"

definition ex_backend_down :: backend where
  "ex_backend_down =
     \<lparr> sessions_response = Inr [], start_response = Inl ''down'',
       question_response = Inl ''down'', answer_response = Inl ''down'',
       end_response = None, clock = 0 \<rparr>"

definition ex_backend_evaluating :: backend where
  "ex_backend_evaluating =
     \<lparr> sessions_response = Inr [], start_response = Inl ''down'',
       question_response = Inl ''down'', answer_response = Inr ex_evaluation,
       end_response = None, clock = 0 \<rparr>"

definition ex_backend_silent :: backend where
  "ex_backend_silent =
     \<lparr> sessions_response = Inr [], start_response = Inl ''down'',
       question_response = Inl ''down'', answer_response = Inr ex_evaluation_silent,
       end_response = None, clock = 0 \<rparr>"

definition ex_backend_ending :: backend where
  "ex_backend_ending =
     \<lparr> sessions_response = Inr [], start_response = Inl ''down'',
       question_response = Inl ''down'', answer_response = Inl ''down'',
       end_response = None, clock = 180000 \<rparr>"

definition ex_backend_not_ending :: backend where
  "ex_backend_not_ending =
     \<lparr> sessions_response = Inr [], start_response = Inl ''down'',
       question_response = Inl ''down'', answer_response = Inl ''down'',
       end_response = Some ''down'', clock = 180000 \<rparr>"

definition ex_stored_completed :: api_session where
  "ex_stored_completed =
     \<lparr> session_id = 3, resume_id = 7, api_questions = Some [ex_q0], api_answers = Some [ex_a0],
       api_status = ''completed'', created_at = 5 \<rparr>"

definition ex_stored_open :: api_session where
  "ex_stored_open =
     \<lparr> session_id = 3, resume_id = 7, api_questions = Some [ex_q0, ex_q1],
       api_answers = Some [ex_a0], api_status = ''active'', created_at = 5 \<rparr>"

definition ex_session_adopted :: interview_session where
  "ex_session_adopted =
     \<lparr> sessionId = 3, resumeId = 7, status = Active, startTime = 5,
       questions = [ex_q0, ex_q1], answers = [ex_a0], currentQuestionIndex = 1 \<rparr>"

definition ex_active_adopted :: hook_state where
  "ex_active_adopted =
     \<lparr> isInterviewActive = True, currentSession = Some ex_session_adopted, isLoading = False,
       currentStreamingMessage = [], hasAutoLoaded = False \<rparr>"

definition ex_backend_listing_open :: backend where
  "ex_backend_listing_open =
     \<lparr> sessions_response = Inr [ex_stored_open], start_response = Inl ''down'',
       question_response = Inl ''down'', answer_response = Inl ''down'',
       end_response = None, clock = 0 \<rparr>"

definition ex_stored_new :: api_session where
  "ex_stored_new =
     \<lparr> session_id = 4, resume_id = 7, api_questions = Some [ex_q0, ex_q1],
       api_answers = Some [], api_status = ''active'', created_at = 9 \<rparr>"

definition ex_first_question :: next_question where
  "ex_first_question =
     \<lparr> nq_question = ''q0'', nq_question_index = 0 \<rparr>"

definition ex_second_question :: next_question where
  "ex_second_question =
     \<lparr> nq_question = ''q1'', nq_question_index = 1 \<rparr>"

definition ex_backend_creating :: backend where
  "ex_backend_creating =
     \<lparr> sessions_response = Inr [], start_response = Inr ex_stored_new,
       question_response = Inr ex_first_question, answer_response = Inl ''down'',
       end_response = None, clock = 9 \<rparr>"

definition ex_backend_creating_ahead :: backend where
  "ex_backend_creating_ahead =
     \<lparr> sessions_response = Inr [], start_response = Inr ex_stored_new,
       question_response = Inr ex_second_question, answer_response = Inl ''down'',
       end_response = None, clock = 9 \<rparr>"

definition ex_session_new_ahead :: interview_session where
  "ex_session_new_ahead =
     \<lparr> sessionId = 4, resumeId = 7, status = Active, startTime = 9,
       questions = [ex_q0, ex_q1], answers = [], currentQuestionIndex = 1 \<rparr>"

definition ex_stored_stale :: api_session where
  "ex_stored_stale =
     \<lparr> session_id = 3, resume_id = 7, api_questions = Some [ex_q0], api_answers = Some [ex_a0],
       api_status = ''active'', created_at = 5 \<rparr>"

definition ex_page_idle :: page_state where
  "ex_page_idle =
     \<lparr> hook = ex_idle, resumeLoaded = True, pageResumeId = 7,
       configMode = ''technical'', configPosition = ''engineer'', configJd = [],
       configSessionId = None, questionCountParam = Some 2, messages = [],
       inputMessage = ''hello'', interviewTime = 0, currentQuestion = 1,
       hasStartedInterview = False, interviewError = None,
       processedSessionRef = None, hasCheckedExistingSession = False \<rparr>"

definition ex_page_busy :: page_state where
  "ex_page_busy =
     \<lparr> hook = ex_active_busy, resumeLoaded = True, pageResumeId = 7,
       configMode = ''technical'', configPosition = ''engineer'', configJd = [],
       configSessionId = None, questionCountParam = Some 2, messages = [],
       inputMessage = ''hello'', interviewTime = 0, currentQuestion = 1,
       hasStartedInterview = False, interviewError = None,
       processedSessionRef = None, hasCheckedExistingSession = False \<rparr>"

definition ex_env_stale :: page_env where
  "ex_env_stale =
     \<lparr> token_present = True, sessions_fetched = Ok [ex_stored_stale], end_fetch_throws = False,
       confirm_answer = False, hook_backend = ex_backend_creating \<rparr>"

definition ex_stored_stale_later :: api_session where
  "ex_stored_stale_later =
     \<lparr> session_id = 5, resume_id = 7, api_questions = Some [ex_q0], api_answers = Some [ex_a0],
       api_status = ''active'', created_at = 9 \<rparr>"

definition ex_env_two_active :: page_env where
  "ex_env_two_active =
     \<lparr> token_present = True,
       sessions_fetched = Ok [ex_stored_open, ex_stored_stale_later],
       end_fetch_throws = False, confirm_answer = True,
       hook_backend = ex_backend_creating \<rparr>"

definition ex_page_continued :: page_state where
  "ex_page_continued =
     \<lparr> hook = ex_idle, resumeLoaded = True, pageResumeId = 7,
       configMode = ''technical'', configPosition = ''engineer'', configJd = [],
       configSessionId = Some 3, questionCountParam = Some 2, messages = [],
       inputMessage = ''hello'', interviewTime = 0, currentQuestion = 1,
       hasStartedInterview = True, interviewError = None,
       processedSessionRef = Some 3, hasCheckedExistingSession = True \<rparr>"

text \<open>
  What \<^verbatim>\<open>new Date(s).getTime()\<close> gives for the four dates of the examples, which use no
  other: the last two differ within the millisecond 123 of 16:00:00.
\<close>

definition ex_getTime :: "string \<Rightarrow> int option" where
  "ex_getTime =
     map_of
       [(''2025-07-11T15:19:00Z'', 1752247140000),
        (''2025-07-11T16:00:00Z'', 1752249600000),
        (''2025-07-11T16:00:00.123100Z'', 1752249600123),
        (''2025-07-11T16:00:00.123400Z'', 1752249600123)]"

definition ex_listed_older :: listed_session where
  "ex_listed_older =
     \<lparr> listed_id = 1, listed_resume_id = 7, listed_status = ''active'',
       listed_created_at = ''2025-07-11T15:19:00Z'' \<rparr>"

definition ex_listed_newer :: listed_session where
  "ex_listed_newer =
     \<lparr> listed_id = 2, listed_resume_id = 7, listed_status = ''active'',
       listed_created_at = ''2025-07-11T16:00:00Z'' \<rparr>"

definition ex_listed_completed :: listed_session where
  "ex_listed_completed =
     \<lparr> listed_id = 3, listed_resume_id = 7, listed_status = ''completed'',
       listed_created_at = ''2025-07-11T16:00:00.123400Z'' \<rparr>"

definition ex_listed_other_resume :: listed_session where
  "ex_listed_other_resume =
     \<lparr> listed_id = 4, listed_resume_id = 8, listed_status = ''active'',
       listed_created_at = ''2025-07-11T15:19:00Z'' \<rparr>"

definition ex_listed :: "listed_session list" where
  "ex_listed =
     [ex_listed_older, ex_listed_newer, ex_listed_completed, ex_listed_other_resume]"

definition ex_listed_first_twin :: listed_session where
  "ex_listed_first_twin =
     \<lparr> listed_id = 5, listed_resume_id = 7, listed_status = ''active'',
       listed_created_at = ''2025-07-11T16:00:00.123100Z'' \<rparr>"

definition ex_listed_second_twin :: listed_session where
  "ex_listed_second_twin =
     \<lparr> listed_id = 6, listed_resume_id = 7, listed_status = ''active'',
       listed_created_at = ''2025-07-11T16:00:00.123400Z'' \<rparr>"

definition ex_backend_listing_completed :: backend where
  "ex_backend_listing_completed =
     \<lparr> sessions_response = Inr [ex_stored_completed], start_response = Inr ex_stored_new,
       question_response = Inr ex_first_question, answer_response = Inl ''down'',
       end_response = None, clock = 0 \<rparr>"

section \<open>Starting, adopting and answering\<close>

text \<open>
  C10. Starting an interview while one is active returns the current session, leaves the
  state of the hook as it is and does nothing to the outside world: no call to the
  Session Store, so no new session.
\<close>

theorem startInterview_idempotent_while_active:
  "isInterviewActive st \<Longrightarrow> startInterview rid opts st jd qc b = (st, currentSession st, [])"
  by (simp add: startInterview_def)

text \<open>C10 at an active session, with a Session Store that would create a session if asked.\<close>

theorem startInterview_idempotent_while_active_witness:
  "isInterviewActive ex_active_open
   \<and> startInterview 7 ex_options ex_active_open None None ex_backend_creating =
       (ex_active_open, Some ex_session_open, [])"
  using startInterview_idempotent_while_active
    [where st = ex_active_open and rid = 7 and opts = ex_options and jd = None and qc = None
       and b = ex_backend_creating]
  by (simp add: ex_q0_def ex_q1_def ex_session_open_def ex_active_open_def ex_options_def
      ex_stored_new_def ex_first_question_def ex_backend_creating_def)

text \<open>
  C3. When every preset question is answered (\<open>currentQuestionIndex \<ge> questions.length\<close>),
  submitting an answer to an active session emits the answer and then the message that
  all preset questions are complete, and nothing else: the Answer Evaluator is not called,
  whatever it would have answered, the session with its answers and its index is the same
  afterwards, and the interview is still active.
\<close>

theorem sendAnswer_all_preset_complete:
  assumes "currentSession st = Some cur" and "isInterviewActive st"
    and "currentQuestionIndex cur \<ge> length (questions cur)"
  shows "sendAnswer rid st ans b =
           (st\<lparr>isLoading := False, currentStreamingMessage := []\<rparr>,
            [OnMessage User (Verbatim ans), OnMessage Ai AllPresetComplete])
         \<and> currentSession (fst (sendAnswer rid st ans b)) = Some cur
         \<and> isInterviewActive (fst (sendAnswer rid st ans b))"
  using assms by (simp add: sendAnswer_def)

text \<open>C3 at a session of one question, already answered, with a working Evaluator.\<close>

theorem sendAnswer_all_preset_complete_witness:
  "currentSession ex_active_exhausted = Some ex_session_exhausted
   \<and> isInterviewActive ex_active_exhausted
   \<and> currentQuestionIndex ex_session_exhausted \<ge> length (questions ex_session_exhausted)
   \<and> sendAnswer 7 ex_active_exhausted ''hello'' ex_backend_evaluating =
       (ex_active_exhausted,
        [OnMessage User (Verbatim ''hello''), OnMessage Ai AllPresetComplete])"
  using sendAnswer_all_preset_complete
    [where st = ex_active_exhausted and cur = ex_session_exhausted and rid = 7
       and ans = "''hello''" and b = ex_backend_evaluating]
  by (simp add: ex_q0_def ex_a0_def ex_evaluation_def ex_session_exhausted_def
      ex_active_exhausted_def ex_backend_evaluating_def)

text \<open>
  C2, as the claim states it, fails where the Evaluator returns an empty feedback text:
  the message emitted after the answer is then the fixed prompt to go on to the next
  question, not the feedback text.
\<close>

theorem sendAnswer_empty_feedback_counterexample:
  "answer_response ex_backend_silent = Inr ex_evaluation_silent
   \<and> snd (sendAnswer 7 ex_active_open ''hello'' ex_backend_silent) =
       [OnMessage User (Verbatim ''hello''), Call (SubmitInterviewAnswer 7 3 ''hello'' 0),
        OnMessage Ai DefaultNextPrompt]
   \<and> OnMessage Ai (Verbatim (ev_feedback ex_evaluation_silent))
       \<notin> set (snd (sendAnswer 7 ex_active_open ''hello'' ex_backend_silent))"
  by (simp add: ex_q0_def ex_evaluation_silent_def ex_session_open_def ex_active_open_def
      ex_backend_silent_def sendAnswer_def feedback_content_def)

text \<open>
  C2, amended. For an active session with \<open>currentQuestionIndex < questions.length\<close>, a
  submission the Evaluator answers does exactly three things in order: it emits the
  answer, calls the Evaluator with the answer and the current question index, and emits
  the Evaluator's feedback text, or the fixed prompt to go on when that text is empty;
  there is no call for the next question. The session afterwards is the one before with
  one answer record appended, carrying the index before the call, and with its index
  incremented by one.
\<close>

theorem sendAnswer_success_appends_once:
  assumes "currentSession st = Some cur" and "isInterviewActive st"
    and "currentQuestionIndex cur < length (questions cur)"
    and "answer_response b = Inr ev"
  shows "snd (sendAnswer rid st ans b) =
           [OnMessage User (Verbatim ans),
            Call (SubmitInterviewAnswer rid (sessionId cur) ans (currentQuestionIndex cur)),
            OnMessage Ai (if ev_feedback ev = [] then DefaultNextPrompt
                          else Verbatim (ev_feedback ev))]
         \<and> fst (sendAnswer rid st ans b) =
             st\<lparr>currentSession :=
                   Some (cur\<lparr>currentQuestionIndex := currentQuestionIndex cur + 1,
                             answers := answers cur @
                               [\<lparr>answer = ans, evaluation = ev_evaluation ev,
                                 question_index = currentQuestionIndex cur\<rparr>]\<rparr>),
                 isLoading := False, currentStreamingMessage := []\<rparr>"
  using assms by (simp add: sendAnswer_def feedback_content_def)

text \<open>C2, amended, at a session of one question, not yet answered.\<close>

theorem sendAnswer_success_appends_once_witness:
  "currentSession ex_active_open = Some ex_session_open
   \<and> isInterviewActive ex_active_open
   \<and> currentQuestionIndex ex_session_open < length (questions ex_session_open)
   \<and> answer_response ex_backend_evaluating = Inr ex_evaluation
   \<and> snd (sendAnswer 7 ex_active_open ''hello'' ex_backend_evaluating) =
       [OnMessage User (Verbatim ''hello''), Call (SubmitInterviewAnswer 7 3 ''hello'' 0),
        OnMessage Ai (Verbatim ''next'')]
   \<and> fst (sendAnswer 7 ex_active_open ''hello'' ex_backend_evaluating) =
       ex_active_open_answered"
  using sendAnswer_success_appends_once
    [where st = ex_active_open and cur = ex_session_open and rid = 7 and ans = "''hello''"
       and b = ex_backend_evaluating and ev = ex_evaluation]
  by (simp add: ex_q0_def ex_a_hello_def ex_evaluation_def ex_session_open_def
      ex_session_open_answered_def ex_active_open_def ex_active_open_answered_def
      ex_backend_evaluating_def)

text \<open>
  C4. When the call to the Answer Evaluator fails, the session with its answers and its
  index is the same afterwards and the interview is still active; the failure is handed
  to the error callback; and the same submission made again, once the Evaluator answers,
  leaves the session with exactly one answer record more than before the failure.
\<close>

theorem sendAnswer_failure_no_partial_append:
  assumes "currentSession st = Some cur" and "isInterviewActive st"
    and "currentQuestionIndex cur < length (questions cur)"
    and "answer_response b = Inl m"
    and "answer_response b' = Inr ev"
  shows "currentSession (fst (sendAnswer rid st ans b)) = Some cur
         \<and> isInterviewActive (fst (sendAnswer rid st ans b))
         \<and> snd (sendAnswer rid st ans b) =
             [OnMessage User (Verbatim ans),
              Call (SubmitInterviewAnswer rid (sessionId cur) ans (currentQuestionIndex cur)),
              OnError (send_error_text m)]
         \<and> currentSession (fst (sendAnswer rid (fst (sendAnswer rid st ans b)) ans b')) =
             Some (cur\<lparr>currentQuestionIndex := currentQuestionIndex cur + 1,
                       answers := answers cur @
                         [\<lparr>answer = ans, evaluation = ev_evaluation ev,
                           question_index = currentQuestionIndex cur\<rparr>]\<rparr>)"
  using assms by (simp add: sendAnswer_def)

text \<open>C4 at a session of one question: the Evaluator is down, then answers.\<close>

theorem sendAnswer_failure_no_partial_append_witness:
  "currentSession ex_active_open = Some ex_session_open
   \<and> isInterviewActive ex_active_open
   \<and> currentQuestionIndex ex_session_open < length (questions ex_session_open)
   \<and> answer_response ex_backend_down = Inl ''down''
   \<and> answer_response ex_backend_evaluating = Inr ex_evaluation
   \<and> currentSession (fst (sendAnswer 7 ex_active_open ''hello'' ex_backend_down)) =
       Some ex_session_open
   \<and> snd (sendAnswer 7 ex_active_open ''hello'' ex_backend_down) =
       [OnMessage User (Verbatim ''hello''), Call (SubmitInterviewAnswer 7 3 ''hello'' 0),
        OnError (ErrVerbatim ''down'')]
   \<and> currentSession
         (fst (sendAnswer 7 (fst (sendAnswer 7 ex_active_open ''hello'' ex_backend_down))
                 ''hello'' ex_backend_evaluating)) =
       Some ex_session_open_answered"
  using sendAnswer_failure_no_partial_append
    [where st = ex_active_open and cur = ex_session_open and rid = 7 and ans = "''hello''"
       and b = ex_backend_down and m = "''down''" and b' = ex_backend_evaluating
       and ev = ex_evaluation]
  by (simp add: ex_q0_def ex_a_hello_def ex_evaluation_def ex_session_open_def
      ex_session_open_answered_def ex_active_open_def ex_backend_down_def
      ex_backend_evaluating_def send_error_text_def)

section \<open>Ending\<close>

text \<open>
  C5. Ending an interview calls the Session Store to end the session. When the call
  succeeds, the hook emits the summary with the number of answers and the minutes since
  the start, is no longer active and holds no session. When the call fails, the state of
  the hook is the same as before and the failure is handed to the error callback, so that
  ending again, once the Store answers, ends the interview.
\<close>

theorem endInterview_finalizes_or_stays:
  assumes "currentSession st = Some cur"
  shows "(end_response b = None \<longrightarrow>
            endInterview rid st b =
              (st\<lparr>isInterviewActive := False, currentSession := None\<rparr>,
               [Call (EndInterview rid (sessionId cur)),
                OnMessage Ai (EndSummary (length (answers cur))
                                ((clock b - startTime cur) div 60000))]))
         \<and> (end_response b \<noteq> None \<longrightarrow>
            endInterview rid st b =
              (st, [Call (EndInterview rid (sessionId cur)), OnError EndFailed])
            \<and> (end_response b' = None \<longrightarrow>
                 endInterview rid (fst (endInterview rid st b)) b' =
                   (st\<lparr>isInterviewActive := False, currentSession := None\<rparr>,
                    [Call (EndInterview rid (sessionId cur)),
                     OnMessage Ai (EndSummary (length (answers cur))
                                     ((clock b' - startTime cur) div 60000))])))"
  using assms by (auto simp add: endInterview_def)

text \<open>C5 at a session with one answer, three minutes after its start.\<close>

theorem endInterview_finalizes_or_stays_witness:
  "currentSession ex_active_exhausted = Some ex_session_exhausted
   \<and> end_response ex_backend_ending = None
   \<and> end_response ex_backend_not_ending \<noteq> None
   \<and> endInterview 7 ex_active_exhausted ex_backend_ending =
       (ex_idle, [Call (EndInterview 7 3), OnMessage Ai (EndSummary 1 3)])
   \<and> endInterview 7 ex_active_exhausted ex_backend_not_ending =
       (ex_active_exhausted, [Call (EndInterview 7 3), OnError EndFailed])
   \<and> endInterview 7 (fst (endInterview 7 ex_active_exhausted ex_backend_not_ending))
         ex_backend_ending =
       (ex_idle, [Call (EndInterview 7 3), OnMessage Ai (EndSummary 1 3)])"
  using endInterview_finalizes_or_stays
    [where st = ex_active_exhausted and cur = ex_session_exhausted and rid = 7
       and b = ex_backend_ending]
    endInterview_finalizes_or_stays
    [where st = ex_active_exhausted and cur = ex_session_exhausted and rid = 7
       and b = ex_backend_not_ending and b' = ex_backend_ending]
  by (simp add: ex_q0_def ex_a0_def ex_session_exhausted_def ex_idle_def ex_active_exhausted_def
      ex_backend_ending_def ex_backend_not_ending_def)

section \<open>Resolving\<close>

text \<open>
  C6. When the session the caller names is stored as completed, loading it hands the
  error that the interview is already completed to the error callback and returns no
  session; the hook holds the session it held before and is active only if it was
  before, and the only call made is the one that lists the sessions, so no session is
  created. The same holds on both ways into the load: the effect that loads the session
  named in the options, and a start request after that effect has run.
\<close>

theorem completed_session_not_adopted:
  assumes "sessions_response b = Inr sessions"
    and "find (\<lambda>s. session_id s = sid) sessions = Some existing"
    and "api_status existing = ''completed''"
  shows "loadExistingSession rid st sid b =
           (st\<lparr>isLoading := False\<rparr>, None,
            [Call (GetInterviewSessions rid), OnError AlreadyCompleted])
         \<and> (existingSessionId opts = Some sid \<and> sid \<noteq> 0 \<and> rid \<noteq> 0
               \<and> \<not> hasAutoLoaded st \<and> \<not> isInterviewActive st \<and> \<not> isLoading st \<longrightarrow>
             autoLoadEffect rid opts st b =
               (st\<lparr>hasAutoLoaded := True, isLoading := False\<rparr>,
                [Call (GetInterviewSessions rid), OnError AlreadyCompleted]))
         \<and> (existingSessionId opts = Some sid \<and> sid \<noteq> 0
               \<and> hasAutoLoaded st \<and> \<not> isInterviewActive st \<longrightarrow>
             startInterview rid opts st jd qc b =
               (st\<lparr>isLoading := False\<rparr>, None,
                [Call (GetInterviewSessions rid), OnError AlreadyCompleted]))"
  using assms
  by (simp add: loadExistingSession_def autoLoadEffect_def startInterview_def truthy_def)

text \<open>C6 at a completed session 3, with a Session Store that would create a session
  if asked.\<close>

theorem completed_session_not_adopted_witness:
  "sessions_response ex_backend_listing_completed = Inr [ex_stored_completed]
   \<and> find (\<lambda>s. session_id s = 3) [ex_stored_completed] = Some ex_stored_completed
   \<and> api_status ex_stored_completed = ''completed''
   \<and> existingSessionId ex_options_resume = Some 3
   \<and> \<not> hasAutoLoaded ex_idle \<and> \<not> isInterviewActive ex_idle
   \<and> \<not> isLoading ex_idle
   \<and> hasAutoLoaded ex_idle_autoloaded \<and> \<not> isInterviewActive ex_idle_autoloaded
   \<and> loadExistingSession 7 ex_idle 3 ex_backend_listing_completed =
       (ex_idle, None, [Call (GetInterviewSessions 7), OnError AlreadyCompleted])
   \<and> autoLoadEffect 7 ex_options_resume ex_idle ex_backend_listing_completed =
       (ex_idle_autoloaded, [Call (GetInterviewSessions 7), OnError AlreadyCompleted])
   \<and> startInterview 7 ex_options_resume ex_idle_autoloaded None None
         ex_backend_listing_completed =
       (ex_idle_autoloaded, None, [Call (GetInterviewSessions 7), OnError AlreadyCompleted])"
  using completed_session_not_adopted
    [where b = ex_backend_listing_completed and sessions = "[ex_stored_completed]" and sid = 3
       and existing = ex_stored_completed and rid = 7 and st = ex_idle
       and opts = ex_options_resume]
    completed_session_not_adopted
    [where b = ex_backend_listing_completed and sessions = "[ex_stored_completed]" and sid = 3
       and existing = ex_stored_completed and rid = 7 and st = ex_idle_autoloaded
       and opts = ex_options_resume and jd = None and qc = None]
  by (simp add: ex_q0_def ex_q1_def ex_a0_def ex_idle_def ex_idle_autoloaded_def
      ex_options_resume_def ex_stored_completed_def ex_backend_listing_completed_def
      ex_stored_new_def ex_first_question_def)

text \<open>
  C7, as the claim states it, fails for a finished session that is not the first the
  Session Store lists as active: the page looks at that first one only. Where the Store
  lists the open session 3 and then session 5, active with its one question answered, the
  page asks the user about session 3 and, told to continue, takes it up; it never
  calls the Store to end session 5, and it creates no session.
\<close>

theorem stale_session_listed_second_counterexample:
  "sessions_fetched ex_env_two_active = Ok [ex_stored_open, ex_stored_stale_later]
   \<and> api_status ex_stored_stale_later = ''active''
   \<and> length (or_empty (api_answers ex_stored_stale_later))
       \<ge> length (or_empty (api_questions ex_stored_stale_later))
   \<and> length (or_empty (api_questions ex_stored_stale_later)) > 0
   \<and> autoStartEffect ex_page_idle ex_env_two_active =
       (ex_page_continued, [Call (GetInterviewSessions 7), Confirm 1 2])
   \<and> Call (EndInterview 7 5) \<notin> set (snd (autoStartEffect ex_page_idle ex_env_two_active))"
  by (simp add: ex_q0_def ex_q1_def ex_a0_def ex_idle_def ex_stored_open_def ex_stored_new_def
      ex_first_question_def ex_backend_creating_def ex_page_idle_def
      ex_stored_stale_later_def ex_env_two_active_def ex_page_continued_def
      autoStartEffect_def checkAndStartInterview_def truthy_def or_empty_def Let_def)

text \<open>What a start does when the hook is idle and no session is named.\<close>

lemma hook_deliver: "hook (deliver effs ps) = hook ps"
  by (induction effs ps rule: deliver.induct) simp_all

lemma startInterview_fresh:
  assumes "\<not> isInterviewActive st" and "\<not> truthy (existingSessionId opts)"
  shows "\<exists>rest. snd (snd (startInterview rid opts st jd qc b)) =
            Call (StartInterview rid (start_config opts jd qc)) # rest
          \<and> (\<forall>a t. Confirm a t \<notin> set rest)"
    and "start_response b = Inr backendSession \<Longrightarrow>
           isInterviewActive (fst (startInterview rid opts st jd qc b))
           \<and> map_option sessionId (currentSession (fst (startInterview rid opts st jd qc b)))
               = Some (session_id backendSession)"
  using assms
  by (auto simp add: startInterview_def created_def Let_def split: sum.splits)

lemma handleStartInterview_fresh:
  assumes "resumeLoaded ps" and "\<not> isInterviewActive (hook ps)"
    and "\<not> hasStartedInterview ps" and "\<not> truthy (configSessionId ps)"
  shows "\<exists>rest. snd (handleStartInterview ps b) =
            Call (StartInterview (pageResumeId ps)
                    (start_config (interviewOptions ps) (Some (configJd ps))
                       (questionCountParam ps))) # rest
          \<and> (\<forall>a t. Confirm a t \<notin> set rest)"
    and "start_response b = Inr backendSession \<Longrightarrow>
           isInterviewActive (hook (fst (handleStartInterview ps b)))
           \<and> map_option sessionId (currentSession (hook (fst (handleStartInterview ps b))))
               = Some (session_id backendSession)"
proof -
  have opts: "\<not> truthy (existingSessionId (interviewOptions ps))"
    using assms(4) by (simp add: interviewOptions_def)
  obtain h session effs where r:
    "startInterview (pageResumeId ps) (interviewOptions ps) (hook ps)
       (Some (configJd ps)) (questionCountParam ps) b = (h, session, effs)"
    using prod_cases3 by blast
  from startInterview_fresh(1)[OF assms(2) opts, of "pageResumeId ps" "Some (configJd ps)"
      "questionCountParam ps" b] r
  obtain rest where rest: "effs = Call (StartInterview (pageResumeId ps)
                    (start_config (interviewOptions ps) (Some (configJd ps))
                       (questionCountParam ps))) # rest" "\<forall>a t. Confirm a t \<notin> set rest"
    by auto
  have result: "handleStartInterview ps b =
      (deliver effs (ps\<lparr>hasStartedInterview := True, messages := [], interviewTime := 0,
                         currentQuestion := 1, hook := h\<rparr>),
       effs @ (case session of None \<Rightarrow> [] | Some _ \<Rightarrow> [Toast ToastStarted]))"
    using assms r by (simp add: handleStartInterview_def Let_def)
  show "\<exists>rest. snd (handleStartInterview ps b) =
            Call (StartInterview (pageResumeId ps)
                    (start_config (interviewOptions ps) (Some (configJd ps))
                       (questionCountParam ps))) # rest
          \<and> (\<forall>a t. Confirm a t \<notin> set rest)"
    using rest by (auto simp add: result split: option.splits)
  show "isInterviewActive (hook (fst (handleStartInterview ps b)))
           \<and> map_option sessionId (currentSession (hook (fst (handleStartInterview ps b))))
               = Some (session_id backendSession)"
    if "start_response b = Inr backendSession"
    using startInterview_fresh(2)[OF assms(2) opts that, of "pageResumeId ps"
        "Some (configJd ps)" "questionCountParam ps"] r
    by (simp add: result hook_deliver)
qed

text \<open>
  C7, amended. When the page starts with no session to continue and the first session the
  Session Store lists as active, one the page has not handled before, has at least as many
  answers as questions, and at least one question, the page calls the Store to end that
  session and goes on to start a new interview: after listing and ending, the next call
  creates a session, and the user is never asked to confirm. When the Store creates the
  session, the hook is active on it.
\<close>

theorem stale_active_session_auto_finalized:
  assumes "resumeLoaded ps" and "\<not> isInterviewActive (hook ps)" and "\<not> isLoading (hook ps)"
    and "\<not> hasStartedInterview ps" and "\<not> truthy (configSessionId ps)"
    and "\<not> hasCheckedExistingSession ps"
    and "token_present e" and "sessions_fetched e = Ok sessions"
    and "find (\<lambda>s. api_status s = ''active'') sessions = Some activeSession"
    and "processedSessionRef ps \<noteq> Some (session_id activeSession)"
    and "length (or_empty (api_answers activeSession))
           \<ge> length (or_empty (api_questions activeSession))"
    and "length (or_empty (api_questions activeSession)) > 0"
  shows "(\<exists>rest. snd (autoStartEffect ps e) =
            Call (GetInterviewSessions (pageResumeId ps))
            # Call (EndInterview (pageResumeId ps) (session_id activeSession))
            # Call (StartInterview (pageResumeId ps)
                     (start_config (interviewOptions ps) (Some (configJd ps))
                        (questionCountParam ps)))
            # rest
          \<and> (\<forall>a t. Confirm a t \<notin> set rest))
       \<and> (start_response (hook_backend e) = Inr backendSession \<longrightarrow>
            isInterviewActive (hook (fst (autoStartEffect ps e)))
            \<and> map_option sessionId (currentSession (hook (fst (autoStartEffect ps e))))
                = Some (session_id backendSession))"
proof -
  let ?ps = "ps\<lparr>hasCheckedExistingSession := True\<rparr>"
  have pre: "resumeLoaded ?ps" "\<not> isInterviewActive (hook ?ps)"
    "\<not> hasStartedInterview ?ps" "\<not> truthy (configSessionId ?ps)"
    using assms(1,2,4,5) by simp_all
  have unf: "autoStartEffect ps e =
      (fst (handleStartInterview ?ps (hook_backend e)),
       [Call (GetInterviewSessions (pageResumeId ps)),
        Call (EndInterview (pageResumeId ps) (session_id activeSession))]
       @ snd (handleStartInterview ?ps (hook_backend e)))"
    using assms
    by (simp add: autoStartEffect_def checkAndStartInterview_def then_start_def Let_def
        split: prod.splits)
  from handleStartInterview_fresh(1)[OF pre, of "hook_backend e"]
  obtain rest where rest:
    "snd (handleStartInterview ?ps (hook_backend e)) =
       Call (StartInterview (pageResumeId ps)
               (start_config (interviewOptions ps) (Some (configJd ps))
                  (questionCountParam ps))) # rest"
    "\<forall>a t. Confirm a t \<notin> set rest"
    by (auto simp add: interviewOptions_def)
  have effects: "\<exists>rest. snd (autoStartEffect ps e) =
            Call (GetInterviewSessions (pageResumeId ps))
            # Call (EndInterview (pageResumeId ps) (session_id activeSession))
            # Call (StartInterview (pageResumeId ps)
                     (start_config (interviewOptions ps) (Some (configJd ps))
                        (questionCountParam ps)))
            # rest
          \<and> (\<forall>a t. Confirm a t \<notin> set rest)"
    using rest by (simp add: unf)
  have adopted: "start_response (hook_backend e) = Inr backendSession \<longrightarrow>
            isInterviewActive (hook (fst (autoStartEffect ps e)))
            \<and> map_option sessionId (currentSession (hook (fst (autoStartEffect ps e))))
                = Some (session_id backendSession)"
    using handleStartInterview_fresh(2)[OF pre, of "hook_backend e" backendSession]
    by (simp add: unf)
  from effects adopted show ?thesis by blast
qed

text \<open>C7, amended, at a page that has just loaded its resume, with a stale session 3 of one
  question and one answer, and a Session Store that creates session 4.\<close>

theorem stale_active_session_auto_finalized_witness:
  "resumeLoaded ex_page_idle \<and> \<not> isInterviewActive (hook ex_page_idle)
   \<and> \<not> isLoading (hook ex_page_idle) \<and> \<not> hasStartedInterview ex_page_idle
   \<and> \<not> truthy (configSessionId ex_page_idle) \<and> \<not> hasCheckedExistingSession ex_page_idle
   \<and> token_present ex_env_stale \<and> sessions_fetched ex_env_stale = Ok [ex_stored_stale]
   \<and> find (\<lambda>s. api_status s = ''active'') [ex_stored_stale] = Some ex_stored_stale
   \<and> processedSessionRef ex_page_idle \<noteq> Some (session_id ex_stored_stale)
   \<and> length (or_empty (api_answers ex_stored_stale))
       \<ge> length (or_empty (api_questions ex_stored_stale))
   \<and> length (or_empty (api_questions ex_stored_stale)) > 0
   \<and> start_response (hook_backend ex_env_stale) = Inr ex_stored_new
   \<and> (\<exists>rest. snd (autoStartEffect ex_page_idle ex_env_stale) =
         Call (GetInterviewSessions 7) # Call (EndInterview 7 3)
         # Call (StartInterview 7
                  (start_config (interviewOptions ex_page_idle) (Some []) (Some 2)))
         # rest
       \<and> (\<forall>a t. Confirm a t \<notin> set rest))
   \<and> isInterviewActive (hook (fst (autoStartEffect ex_page_idle ex_env_stale)))
   \<and> map_option sessionId
         (currentSession (hook (fst (autoStartEffect ex_page_idle ex_env_stale)))) = Some 4"
proof -
  have pre: "resumeLoaded ex_page_idle" "\<not> isInterviewActive (hook ex_page_idle)"
    "\<not> isLoading (hook ex_page_idle)" "\<not> hasStartedInterview ex_page_idle"
    "\<not> truthy (configSessionId ex_page_idle)" "\<not> hasCheckedExistingSession ex_page_idle"
    "token_present ex_env_stale" "sessions_fetched ex_env_stale = Ok [ex_stored_stale]"
    "find (\<lambda>s. api_status s = ''active'') [ex_stored_stale] = Some ex_stored_stale"
    "processedSessionRef ex_page_idle \<noteq> Some (session_id ex_stored_stale)"
    "length (or_empty (api_answers ex_stored_stale))
       \<ge> length (or_empty (api_questions ex_stored_stale))"
    "length (or_empty (api_questions ex_stored_stale)) > 0"
    by (simp_all add: ex_q0_def ex_q1_def ex_a0_def ex_idle_def ex_stored_new_def
      ex_first_question_def ex_backend_creating_def ex_stored_stale_def
      ex_page_idle_def ex_env_stale_def truthy_def or_empty_def)
  have created: "start_response (hook_backend ex_env_stale) = Inr ex_stored_new"
    by (simp add: ex_q0_def ex_q1_def ex_a0_def ex_idle_def ex_stored_new_def
      ex_first_question_def ex_backend_creating_def ex_stored_stale_def
      ex_page_idle_def ex_env_stale_def)
  have vals: "pageResumeId ex_page_idle = 7" "session_id ex_stored_stale = 3"
    "configJd ex_page_idle = []" "questionCountParam ex_page_idle = Some 2"
    "session_id ex_stored_new = 4"
    by (simp_all add: ex_q0_def ex_q1_def ex_a0_def ex_idle_def ex_stored_new_def
      ex_first_question_def ex_backend_creating_def ex_stored_stale_def
      ex_page_idle_def ex_env_stale_def)
  from stale_active_session_auto_finalized[OF pre, of ex_stored_new] created pre
  show ?thesis
    unfolding vals by blast
qed

section \<open>The local mirror after each operation\<close>

text \<open>
  C1, as the claim states it, fails for a start: the hook takes the index of a new session
  from the Question Supplier and its answers from the Session Store, and nothing makes the
  two agree. Where the Store creates a session with no answers and the Supplier returns a
  question with index 1, the hook is active on a session with no answers and index 1.
\<close>

theorem start_with_supplier_index_counterexample:
  "isInterviewActive
     (fst (startInterview 7 ex_options ex_idle None None ex_backend_creating_ahead))
   \<and> currentSession
         (fst (startInterview 7 ex_options ex_idle None None ex_backend_creating_ahead)) =
       Some ex_session_new_ahead
   \<and> length (answers ex_session_new_ahead) = 0
   \<and> currentQuestionIndex ex_session_new_ahead = 1
   \<and> \<not> hook_invariant
           (fst (startInterview 7 ex_options ex_idle None None ex_backend_creating_ahead))"
  by (simp add: ex_q0_def ex_q1_def ex_idle_def ex_options_def ex_stored_new_def
      ex_second_question_def ex_backend_creating_ahead_def ex_session_new_ahead_def
      startInterview_def truthy_def created_def or_empty_def Let_def
      hook_invariant_def mirror_consistent_def)

lemma adopted_consistent: "mirror_consistent (adopted rid sid existing)"
  by (simp add: mirror_consistent_def adopted_def)

text \<open>
  C1, amended. A session the hook adopts has as many answers as its index says. Submitting
  an answer keeps the invariant: if the hook, when active, held a session with as many
  answers as its index says, it does so afterwards, whether the Evaluator answered, failed
  or was not called. After a new session is started, the invariant holds exactly when the
  index of the question the Question Supplier returned is the number of answers the
  Session Store returned with the session or, when the Supplier failed, when the Store
  returned no answers.
\<close>

theorem mirror_consistent_after_operations:
  "(loadExistingSession rid st sid b = (st', Some s, effs) \<longrightarrow>
      isInterviewActive st' \<and> currentSession st' = Some s \<and> mirror_consistent s)
   \<and> (hook_invariant st \<longrightarrow> hook_invariant (fst (sendAnswer rid st ans b)))
   \<and> (\<not> isInterviewActive st \<and> \<not> truthy (existingSessionId opts)
        \<and> start_response b = Inr backendSession \<longrightarrow>
      hook_invariant (fst (startInterview rid opts st jd qc b)) =
        (case question_response b of
           Inr firstQuestion \<Rightarrow>
             nq_question_index firstQuestion = length (or_empty (api_answers backendSession))
         | Inl m \<Rightarrow> or_empty (api_answers backendSession) = []))"
proof -
  have adopt: "loadExistingSession rid st sid b = (st', Some s, effs) \<longrightarrow>
      isInterviewActive st' \<and> currentSession st' = Some s \<and> mirror_consistent s"
    by (auto simp add: loadExistingSession_def adopted_consistent
        split: sum.splits option.splits if_splits)
  have submit: "hook_invariant st \<longrightarrow> hook_invariant (fst (sendAnswer rid st ans b))"
    by (auto simp add: sendAnswer_def hook_invariant_def mirror_consistent_def
        split: sum.splits option.splits)
  have start: "\<not> isInterviewActive st \<and> \<not> truthy (existingSessionId opts)
        \<and> start_response b = Inr backendSession \<longrightarrow>
      hook_invariant (fst (startInterview rid opts st jd qc b)) =
        (case question_response b of
           Inr firstQuestion \<Rightarrow>
             nq_question_index firstQuestion = length (or_empty (api_answers backendSession))
         | Inl m \<Rightarrow> or_empty (api_answers backendSession) = [])"
    by (auto simp add: startInterview_def hook_invariant_def mirror_consistent_def
        created_def Let_def split: sum.splits)
  from adopt submit start show ?thesis by blast
qed

text \<open>C1, amended: adopting the open session 3, answering its question, and starting
  session 4 with a Supplier that returns index 0.\<close>

theorem mirror_consistent_after_operations_witness:
  "loadExistingSession 7 ex_idle 3 ex_backend_listing_open =
     (ex_active_adopted, Some ex_session_adopted,
      [Call (GetInterviewSessions 7), OnMessage Ai (ContinueWithQuestion 1 2 ''q1'')])
   \<and> mirror_consistent ex_session_adopted
   \<and> isInterviewActive ex_active_open \<and> hook_invariant ex_active_open
   \<and> fst (sendAnswer 7 ex_active_open ''hello'' ex_backend_evaluating) = ex_active_open_answered
   \<and> hook_invariant ex_active_open_answered
   \<and> \<not> isInterviewActive ex_idle \<and> \<not> truthy (existingSessionId ex_options)
   \<and> start_response ex_backend_creating = Inr ex_stored_new
   \<and> question_response ex_backend_creating = Inr ex_first_question
   \<and> nq_question_index ex_first_question = length (or_empty (api_answers ex_stored_new))
   \<and> isInterviewActive (fst (startInterview 7 ex_options ex_idle None None ex_backend_creating))
   \<and> hook_invariant (fst (startInterview 7 ex_options ex_idle None None ex_backend_creating))"
proof -
  have load: "loadExistingSession 7 ex_idle 3 ex_backend_listing_open =
     (ex_active_adopted, Some ex_session_adopted,
      [Call (GetInterviewSessions 7), OnMessage Ai (ContinueWithQuestion 1 2 ''q1'')])"
    by (simp add: ex_q0_def ex_q1_def ex_a0_def ex_a_hello_def ex_evaluation_def
      ex_session_open_def ex_session_open_answered_def ex_idle_def ex_active_open_def
      ex_active_open_answered_def ex_options_def ex_backend_evaluating_def
      ex_stored_open_def ex_session_adopted_def ex_active_adopted_def
      ex_backend_listing_open_def ex_stored_new_def ex_first_question_def
      ex_backend_creating_def loadExistingSession_def adopted_def continue_message_def
        or_empty_def)
  have before: "isInterviewActive ex_active_open" "hook_invariant ex_active_open"
    by (simp_all add: ex_q0_def ex_q1_def ex_a0_def ex_a_hello_def ex_evaluation_def
      ex_session_open_def ex_session_open_answered_def ex_idle_def ex_active_open_def
      ex_active_open_answered_def ex_options_def ex_backend_evaluating_def
      ex_stored_open_def ex_session_adopted_def ex_active_adopted_def
      ex_backend_listing_open_def ex_stored_new_def ex_first_question_def
      ex_backend_creating_def hook_invariant_def mirror_consistent_def)
  have sent: "fst (sendAnswer 7 ex_active_open ''hello'' ex_backend_evaluating) =
      ex_active_open_answered"
    by (simp add: ex_q0_def ex_q1_def ex_a0_def ex_a_hello_def ex_evaluation_def
      ex_session_open_def ex_session_open_answered_def ex_idle_def ex_active_open_def
      ex_active_open_answered_def ex_options_def ex_backend_evaluating_def
      ex_stored_open_def ex_session_adopted_def ex_active_adopted_def
      ex_backend_listing_open_def ex_stored_new_def ex_first_question_def
      ex_backend_creating_def sendAnswer_def)
  have fresh: "\<not> isInterviewActive ex_idle" "\<not> truthy (existingSessionId ex_options)"
    "start_response ex_backend_creating = Inr ex_stored_new"
    "question_response ex_backend_creating = Inr ex_first_question"
    "nq_question_index ex_first_question = length (or_empty (api_answers ex_stored_new))"
    "isInterviewActive
       (fst (startInterview 7 ex_options ex_idle None None ex_backend_creating))"
    by (simp_all add: ex_q0_def ex_q1_def ex_a0_def ex_a_hello_def ex_evaluation_def
      ex_session_open_def ex_session_open_answered_def ex_idle_def ex_active_open_def
      ex_active_open_answered_def ex_options_def ex_backend_evaluating_def
      ex_stored_open_def ex_session_adopted_def ex_active_adopted_def
      ex_backend_listing_open_def ex_stored_new_def ex_first_question_def
      ex_backend_creating_def truthy_def or_empty_def startInterview_def Let_def)
  note adopt = mirror_consistent_after_operations
    [where rid = 7 and st = ex_idle and sid = 3 and b = ex_backend_listing_open
       and st' = ex_active_adopted and s = ex_session_adopted
       and effs = "[Call (GetInterviewSessions 7),
                    OnMessage Ai (ContinueWithQuestion 1 2 ''q1'')]"]
  note submit = mirror_consistent_after_operations
    [where rid = 7 and st = ex_active_open and ans = "''hello''" and b = ex_backend_evaluating]
  note start = mirror_consistent_after_operations
    [where rid = 7 and st = ex_idle and opts = ex_options and b = ex_backend_creating
       and backendSession = ex_stored_new and jd = None and qc = None]
  have a: "mirror_consistent ex_session_adopted"
    using adopt load by blast
  have b: "hook_invariant ex_active_open_answered"
    using submit before sent by simp
  have c: "hook_invariant
      (fst (startInterview 7 ex_options ex_idle None None ex_backend_creating))"
    using start fresh by simp
  from load a before sent b fresh c show ?thesis by blast
qed

section \<open>Duplicate sessions in the session list\<close>

text \<open>
  C8, as the claim states it, fails in two ways. The interviews page compares the times
  its dates parse to, in whole milliseconds: two active sessions of resume 7 whose
  \<^verbatim>\<open>created_at\<close> differ within one millisecond are both left unflagged. And the other
  readers of a session list neither sort nor flag: where the Session Store lists session 3,
  created at 5, before session 5, created at 9, both active, the interview page asks the
  user about session 3, the older one, and takes it up.
\<close>

theorem same_millisecond_and_unsorted_read_counterexample:
  "listed_created_at ex_listed_first_twin \<noteq> listed_created_at ex_listed_second_twin
   \<and> listed_resume_id ex_listed_first_twin = listed_resume_id ex_listed_second_twin
   \<and> listed_status ex_listed_first_twin = ''active''
   \<and> listed_status ex_listed_second_twin = ''active''
   \<and> processedSessions ex_getTime [ex_listed_first_twin, ex_listed_second_twin] =
       Some [(ex_listed_first_twin, False), (ex_listed_second_twin, False)]
   \<and> sessions_fetched ex_env_two_active = Ok [ex_stored_open, ex_stored_stale_later]
   \<and> api_status ex_stored_open = ''active'' \<and> api_status ex_stored_stale_later = ''active''
   \<and> resume_id ex_stored_open = resume_id ex_stored_stale_later
   \<and> created_at ex_stored_open < created_at ex_stored_stale_later
   \<and> snd (autoStartEffect ex_page_idle ex_env_two_active) =
       [Call (GetInterviewSessions 7), Confirm 1 2]
   \<and> configSessionId (fst (autoStartEffect ex_page_idle ex_env_two_active)) =
       Some (session_id ex_stored_open)"
proof -
  have twins: "listed_created_at ex_listed_first_twin \<noteq> listed_created_at ex_listed_second_twin"
    "listed_resume_id ex_listed_first_twin = listed_resume_id ex_listed_second_twin"
    "listed_status ex_listed_first_twin = ''active''"
    "listed_status ex_listed_second_twin = ''active''"
    by (simp_all add: ex_listed_first_twin_def ex_listed_second_twin_def)
  have times: "ex_getTime (listed_created_at ex_listed_first_twin) = Some 1752249600123"
    "ex_getTime (listed_created_at ex_listed_second_twin) = Some 1752249600123"
    by (simp_all add: ex_getTime_def ex_listed_first_twin_def ex_listed_second_twin_def)
  have sorted_twins: "sortByCreatedAt ex_getTime [ex_listed_first_twin, ex_listed_second_twin] =
      Some [ex_listed_first_twin, ex_listed_second_twin]"
    by (simp add: sortByCreatedAt_def createdMs_def times)
  have unflagged: "processedSessions ex_getTime [ex_listed_first_twin, ex_listed_second_twin] =
       Some [(ex_listed_first_twin, False), (ex_listed_second_twin, False)]"
    by (simp add: processedSessions_def sorted_twins isPossibleDuplicate_def
        createdAfter_def times)
  have read: "sessions_fetched ex_env_two_active = Ok [ex_stored_open, ex_stored_stale_later]"
    "api_status ex_stored_open = ''active''" "api_status ex_stored_stale_later = ''active''"
    "resume_id ex_stored_open = resume_id ex_stored_stale_later"
    "created_at ex_stored_open < created_at ex_stored_stale_later"
    by (simp_all add: ex_env_two_active_def ex_stored_open_def ex_stored_stale_later_def)
  have taken: "snd (autoStartEffect ex_page_idle ex_env_two_active) =
       [Call (GetInterviewSessions 7), Confirm 1 2]"
    "configSessionId (fst (autoStartEffect ex_page_idle ex_env_two_active)) =
       Some (session_id ex_stored_open)"
    by (simp_all add: ex_page_idle_def ex_idle_def ex_env_two_active_def ex_stored_open_def
        ex_stored_stale_later_def ex_q0_def ex_q1_def ex_a0_def
        autoStartEffect_def checkAndStartInterview_def truthy_def or_empty_def Let_def)
  from twins unflagged read taken show ?thesis by (intro conjI)
qed

text \<open>The flag, as a condition on the sessions read.\<close>

lemma find_in_filter:
  "(filter P xs \<noteq> [] \<and> find Q (filter P xs) \<noteq> None) \<longleftrightarrow> (\<exists>t \<in> set xs. P t \<and> Q t)"
  by (auto simp add: find_None_iff filter_empty_conv)

lemma isPossibleDuplicate_iff:
  "isPossibleDuplicate getTime xs s \<longleftrightarrow>
     listed_status s = ''active'' \<and>
     (\<exists>t \<in> set xs. (listed_resume_id t = listed_resume_id s \<and> listed_status t = ''active''
        \<and> listed_id t \<noteq> listed_id s) \<and> createdAfter getTime t s)"
proof -
  let ?dup = "filter (\<lambda>t. listed_resume_id t = listed_resume_id s
                         \<and> listed_status t = ''active''
                         \<and> listed_id t \<noteq> listed_id s) xs"
  have "isPossibleDuplicate getTime xs s \<longleftrightarrow>
      listed_status s = ''active'' \<and> (?dup \<noteq> []
      \<and> find (\<lambda>t. createdAfter getTime t s) ?dup \<noteq> None)"
    by (simp add: isPossibleDuplicate_def Let_def split: option.split)
  then show ?thesis
    by (simp only: find_in_filter)
qed

lemma createdAfter_parsed:
  assumes "getTime (listed_created_at t) \<noteq> None" and "getTime (listed_created_at s) \<noteq> None"
  shows "createdAfter getTime t s \<longleftrightarrow> createdMs getTime t > createdMs getTime s"
  using assms by (auto simp add: createdAfter_def createdMs_def)

lemma sorted_by_createdMs:
  "sorted_wrt (\<lambda>a b. createdMs getTime b \<le> createdMs getTime a)
     (sort_key (\<lambda>s. - createdMs getTime s) xs)"
proof -
  have "sorted (map (\<lambda>s. - createdMs getTime s) (sort_key (\<lambda>s. - createdMs getTime s) xs))"
    by (rule sorted_sort_key)
  then show ?thesis
    by (simp add: sorted_wrt_map)
qed

lemma processedSessions_parsed:
  assumes "\<forall>s \<in> set xs. getTime (listed_created_at s) \<noteq> None"
  shows "processedSessions getTime xs =
           Some (map (\<lambda>session. (session,
                        isPossibleDuplicate getTime (sort_key (\<lambda>s. - createdMs getTime s) xs)
                          session))
                   (sort_key (\<lambda>s. - createdMs getTime s) xs))"
  using assms by (simp add: processedSessions_def sortByCreatedAt_def list_all_iff)

lemma drop_implied_conjunct:
  assumes "\<And>t. t \<in> S \<Longrightarrow> R t \<Longrightarrow> C t \<Longrightarrow> I t"
  shows "(\<exists>t \<in> S. (R t \<and> A t \<and> I t) \<and> C t) \<longleftrightarrow> (\<exists>t \<in> S. R t \<and> A t \<and> C t)"
  using assms by blast

lemma same_on_set:
  assumes "\<And>t. t \<in> S \<Longrightarrow> P t = Q t"
  shows "(\<exists>t \<in> S. R t \<and> P t) \<longleftrightarrow> (\<exists>t \<in> S. R t \<and> Q t)"
  using assms by blast

text \<open>
  C8, amended. On the interviews page, where every \<^verbatim>\<open>created_at\<close> read parses as a date
  and the sessions of one resume have identifiers of their own, the session list is
  ordered by the time the dates parse to, in milliseconds, latest first, and holds every
  session read, once; a session is flagged as a possible duplicate exactly when it is
  active and there is an active session of the same resume with a later time: of the
  active sessions of a resume with different times, all are flagged but the latest.
\<close>

theorem duplicates_flagged:
  assumes parsed: "\<forall>s \<in> set allSessions. getTime (listed_created_at s) \<noteq> None"
    and ids: "\<forall>a \<in> set allSessions. \<forall>b \<in> set allSessions.
             listed_resume_id a = listed_resume_id b \<and> listed_id a = listed_id b \<longrightarrow> a = b"
  shows "\<exists>processed.
           processedSessions getTime allSessions = Some processed
         \<and> sorted_wrt (\<lambda>p q. createdMs getTime (fst q) \<le> createdMs getTime (fst p)) processed
         \<and> mset (map fst processed) = mset allSessions
         \<and> (\<forall>(s, flagged) \<in> set processed.
              flagged \<longleftrightarrow>
                listed_status s = ''active'' \<and>
                (\<exists>t \<in> set allSessions. listed_resume_id t = listed_resume_id s
                   \<and> listed_status t = ''active''
                   \<and> createdMs getTime t > createdMs getTime s))"
proof -
  let ?sorted = "sort_key (\<lambda>s. - createdMs getTime s) allSessions"
  let ?processed =
    "map (\<lambda>session. (session, isPossibleDuplicate getTime ?sorted session)) ?sorted"
  have result: "processedSessions getTime allSessions = Some ?processed"
    using parsed by (rule processedSessions_parsed)
  have ordered: "sorted_wrt (\<lambda>p q. createdMs getTime (fst q) \<le> createdMs getTime (fst p))
                   ?processed"
    using sorted_by_createdMs[of getTime allSessions] by (simp add: sorted_wrt_map)
  have perm: "mset (map fst ?processed) = mset allSessions"
    by (simp add: comp_def)
  have flags: "\<forall>(s, flagged) \<in> set ?processed.
              flagged \<longleftrightarrow>
                listed_status s = ''active'' \<and>
                (\<exists>t \<in> set allSessions. listed_resume_id t = listed_resume_id s
                   \<and> listed_status t = ''active''
                   \<and> createdMs getTime t > createdMs getTime s)"
  proof (intro ballI)
    fix p
    assume p: "p \<in> set ?processed"
    obtain s flagged where sf: "p = (s, flagged)"
      by (cases p)
    from p sf have mem: "s \<in> set allSessions"
      and fl: "flagged = isPossibleDuplicate getTime ?sorted s"
      by auto
    have after: "createdAfter getTime t s \<longleftrightarrow> createdMs getTime t > createdMs getTime s"
      if "t \<in> set allSessions" for t
      using parsed that mem by (simp add: createdAfter_parsed)
    have other: "listed_id t \<noteq> listed_id s"
      if "t \<in> set allSessions" and "listed_resume_id t = listed_resume_id s"
        and "createdMs getTime t > createdMs getTime s" for t
    proof
      assume "listed_id t = listed_id s"
      with ids that(1,2) mem have "t = s" by simp
      with that(3) show False by simp
    qed
    have "flagged \<longleftrightarrow>
            listed_status s = ''active'' \<and>
            (\<exists>t \<in> set allSessions. (listed_resume_id t = listed_resume_id s
               \<and> listed_status t = ''active'' \<and> listed_id t \<noteq> listed_id s)
               \<and> createdMs getTime t > createdMs getTime s)"
      unfolding fl isPossibleDuplicate_iff set_sort
      by (simp only: same_on_set[of "set allSessions" "\<lambda>t. createdAfter getTime t s"
            "\<lambda>t. createdMs getTime t > createdMs getTime s", OF after])
    then have "flagged \<longleftrightarrow>
            listed_status s = ''active'' \<and>
            (\<exists>t \<in> set allSessions. listed_resume_id t = listed_resume_id s
               \<and> listed_status t = ''active''
               \<and> createdMs getTime t > createdMs getTime s)"
      by (simp only: drop_implied_conjunct[of "set allSessions"
            "\<lambda>t. listed_resume_id t = listed_resume_id s"
            "\<lambda>t. createdMs getTime t > createdMs getTime s"
            "\<lambda>t. listed_id t \<noteq> listed_id s", OF other])
    then show "case p of (s, flagged) \<Rightarrow>
            flagged \<longleftrightarrow>
            listed_status s = ''active'' \<and>
            (\<exists>t \<in> set allSessions. listed_resume_id t = listed_resume_id s
               \<and> listed_status t = ''active''
               \<and> createdMs getTime t > createdMs getTime s)"
      by (simp only: sf prod.case)
  qed
  from result ordered perm flags show ?thesis
    by (intro exI[of _ ?processed] conjI)
qed


text \<open>C8, amended, at a list of four sessions: two active ones of resume 7, created at
  15:19 and at 16:00, a completed one of resume 7 and an active one of resume 8.\<close>

theorem duplicates_flagged_witness:
  "list_all (\<lambda>s. ex_getTime (listed_created_at s) \<noteq> None) ex_listed
   \<and> distinct (map listed_id ex_listed)
   \<and> processedSessions ex_getTime ex_listed =
       Some [(ex_listed_completed, False), (ex_listed_newer, False),
             (ex_listed_older, True), (ex_listed_other_resume, False)]
   \<and> listed_status ex_listed_older = ''active''
   \<and> (\<exists>t \<in> set ex_listed. listed_resume_id t = listed_resume_id ex_listed_older
         \<and> listed_status t = ''active''
         \<and> createdMs ex_getTime t > createdMs ex_getTime ex_listed_older)
   \<and> listed_status ex_listed_newer = ''active''
   \<and> \<not> (\<exists>t \<in> set ex_listed. listed_resume_id t = listed_resume_id ex_listed_newer
           \<and> listed_status t = ''active''
           \<and> createdMs ex_getTime t > createdMs ex_getTime ex_listed_newer)"
proof -
  have parsed_all: "list_all (\<lambda>s. ex_getTime (listed_created_at s) \<noteq> None) ex_listed"
    by (simp add: ex_getTime_def ex_listed_older_def ex_listed_newer_def ex_listed_completed_def
      ex_listed_other_resume_def ex_listed_def)
  then have parsed: "\<forall>s \<in> set ex_listed. ex_getTime (listed_created_at s) \<noteq> None"
    by (simp only: list_all_iff)
  have distinct_ids: "distinct (map listed_id ex_listed)"
    by (simp add: ex_getTime_def ex_listed_older_def ex_listed_newer_def ex_listed_completed_def
      ex_listed_other_resume_def ex_listed_def)
  have ids: "\<forall>a \<in> set ex_listed. \<forall>b \<in> set ex_listed.
             listed_resume_id a = listed_resume_id b \<and> listed_id a = listed_id b \<longrightarrow> a = b"
    by (simp add: ex_getTime_def ex_listed_older_def ex_listed_newer_def ex_listed_completed_def
      ex_listed_other_resume_def ex_listed_def)
  have times: "createdMs ex_getTime ex_listed_older = 1752247140000"
    "createdMs ex_getTime ex_listed_newer = 1752249600000"
    "createdMs ex_getTime ex_listed_completed = 1752249600123"
    "createdMs ex_getTime ex_listed_other_resume = 1752247140000"
    by (simp_all add: createdMs_def ex_getTime_def
        ex_listed_older_def ex_listed_newer_def
        ex_listed_completed_def ex_listed_other_resume_def)
  have sorted_listed: "sort_key (\<lambda>s. - createdMs ex_getTime s) ex_listed =
      [ex_listed_completed, ex_listed_newer, ex_listed_older, ex_listed_other_resume]"
    by (simp add: ex_listed_def times)
  have active: "listed_status ex_listed_older = ''active''"
    "listed_status ex_listed_newer = ''active''"
    by (simp_all add: ex_listed_older_def ex_listed_newer_def)
  from duplicates_flagged[OF parsed ids] obtain processed where
    result: "processedSessions ex_getTime ex_listed = Some processed"
    and each: "\<forall>(s, flagged) \<in> set processed.
              flagged \<longleftrightarrow>
                listed_status s = ''active'' \<and>
                (\<exists>t \<in> set ex_listed. listed_resume_id t = listed_resume_id s
                   \<and> listed_status t = ''active''
                   \<and> createdMs ex_getTime t > createdMs ex_getTime s)"
    by blast
  have listed: "processedSessions ex_getTime ex_listed =
       Some [(ex_listed_completed, False), (ex_listed_newer, False),
             (ex_listed_older, True), (ex_listed_other_resume, False)]"
    unfolding processedSessions_parsed[OF parsed] sorted_listed
    by (simp add: isPossibleDuplicate_def createdAfter_def ex_getTime_def
        ex_listed_older_def ex_listed_newer_def
        ex_listed_completed_def ex_listed_other_resume_def)
  from result listed have processed: "processed =
       [(ex_listed_completed, False), (ex_listed_newer, False),
        (ex_listed_older, True), (ex_listed_other_resume, False)]"
    by simp
  have "(ex_listed_older, True) \<in> set processed"
    by (simp add: processed)
  from bspec[OF each this] have older:
    "\<exists>t \<in> set ex_listed. listed_resume_id t = listed_resume_id ex_listed_older
         \<and> listed_status t = ''active''
         \<and> createdMs ex_getTime t > createdMs ex_getTime ex_listed_older"
    by (simp add: active)
  have "(ex_listed_newer, False) \<in> set processed"
    by (simp add: processed)
  from bspec[OF each this] have newest:
    "\<not> (\<exists>t \<in> set ex_listed. listed_resume_id t = listed_resume_id ex_listed_newer
           \<and> listed_status t = ''active''
           \<and> createdMs ex_getTime t > createdMs ex_getTime ex_listed_newer)"
    by (simp add: active)
  from parsed_all distinct_ids listed active(1) older active(2) newest
  show ?thesis by (intro conjI)
qed

section \<open>Requests while an operation is pending\<close>

text \<open>
  C9, as the claim states it, fails: no operation rejects a request because another is
  pending, and there is no error for it. With the loading flag set on an active session,
  \<^verbatim>\<open>sendAnswer\<close> calls the Evaluator and appends the answer, and \<^verbatim>\<open>endInterview\<close>,
  also through the page's handler, calls the Session Store and drops the session; neither
  hands anything to the error callback.
\<close>

theorem pending_requests_not_rejected_counterexample:
  "isLoading ex_active_busy \<and> isLoading (hook ex_page_busy)
   \<and> sendAnswer 7 ex_active_busy ''hello'' ex_backend_evaluating =
       (ex_active_open_answered,
        [OnMessage User (Verbatim ''hello''), Call (SubmitInterviewAnswer 7 3 ''hello'' 0),
         OnMessage Ai (Verbatim ''next'')])
   \<and> endInterview 7 ex_active_busy ex_backend_ending =
       (ex_idle_busy, [Call (EndInterview 7 3), OnMessage Ai (EndSummary 0 3)])
   \<and> snd (handleEndInterview ex_page_busy ex_backend_ending) =
       [Call (EndInterview 7 3), OnMessage Ai (EndSummary 0 3), Toast ToastEnded]"
  by (simp add: ex_q0_def ex_a_hello_def ex_evaluation_def ex_session_open_def
      ex_session_open_answered_def ex_active_open_answered_def ex_active_busy_def
      ex_idle_busy_def ex_backend_evaluating_def ex_backend_ending_def
      ex_page_busy_def sendAnswer_def feedback_content_def endInterview_def
      handleEndInterview_def)

text \<open>
  C9, amended. While the loading flag of the hook is set, which a start, a load and a
  submission set for as long as they run, the page's handler for sending a message does
  nothing: no call to the Evaluator, no change of the page or of the session, and no
  error.
\<close>

theorem handleSendMessage_dropped_while_loading:
  "isLoading (hook ps) \<Longrightarrow> handleSendMessage ps b = (ps, [])"
  by (simp add: handleSendMessage_def)

text \<open>C9, amended, at a page with a typed answer and a working Evaluator.\<close>

theorem handleSendMessage_dropped_while_loading_witness:
  "isLoading (hook ex_page_busy) \<and> trim (inputMessage ex_page_busy) = ''hello''
   \<and> handleSendMessage ex_page_busy ex_backend_evaluating = (ex_page_busy, [])"
proof -
  have busy: "isLoading (hook ex_page_busy)"
    by (simp add: ex_q0_def ex_evaluation_def ex_session_open_def ex_active_busy_def
      ex_backend_evaluating_def ex_page_busy_def)
  have typed: "trim (inputMessage ex_page_busy) = ''hello''"
    by (simp add: ex_q0_def ex_evaluation_def ex_session_open_def ex_active_busy_def
      ex_backend_evaluating_def ex_page_busy_def trim_def white_space_def strip_leading.simps)
  from busy typed handleSendMessage_dropped_while_loading[OF busy, of ex_backend_evaluating]
  show ?thesis by blast
qed

end
